theory Spec2Isabelle
  imports Main "HOL-Library.Char_ord" "HOL-Library.List_Lexorder" "HOL-Library.Multiset"
begin

section \<open>Common types\<close>

text \<open>
  Go strings are byte sequences; \<^typ>\<open>string\<close> is a list of 8-bit characters. A Go
  \<open>error\<close> built with \<open>fmt.Errorf\<close> is modelled by its message. Instants and durations
  are integers counting nanoseconds, as \<open>time.Duration\<close> does.
\<close>

type_synonym error = string
type_synonym instant = int

definition Second :: int where
  "Second = 1000000000"

definition Minute :: int where
  "Minute = 60 * Second"

definition Hour :: int where
  "Hour = 60 * Minute"

text \<open>
  An outbound HTTP call followed by the JSON decoding of its body has three outcomes in
  \<open>pkg/oauth/manager.go\<close>: the transport fails, the body does not decode, or a value
  of the expected shape is obtained.
\<close>

datatype 'a http_outcome = TransportError error | DecodeError error | Decoded 'a

section \<open>pkg/oauth: token records and the in-memory storage\<close>

record TokenResponse =
  AccessToken :: string
  BotToken :: string
  UserID :: string
  TeamID :: string
  BotUserID :: string
  ExpiresAt :: instant

record TokenInfo =
  info_UserID :: string
  info_TeamID :: string

type_synonym MemoryStorage = "string \<rightharpoonup> TokenResponse"

definition NewMemoryStorage :: MemoryStorage where
  "NewMemoryStorage = Map.empty"

text \<open>\<open>MemoryStorage.Store\<close>: overwrites the entry of the user; its error is always nil.\<close>

definition Store :: "MemoryStorage \<Rightarrow> string \<Rightarrow> TokenResponse \<Rightarrow> error option \<times> MemoryStorage" where
  "Store s userID token = (None, s(userID \<mapsto> token))"

text \<open>\<open>MemoryStorage.Get\<close>.\<close>

definition Get :: "MemoryStorage \<Rightarrow> string \<Rightarrow> error + TokenResponse" where
  "Get s userID =
     (case s userID of
        None \<Rightarrow> Inl (''token not found for user '' @ userID)
      | Some token \<Rightarrow> Inr token)"

section \<open>pkg/oauth: the manager\<close>

record Manager =
  clientID :: string
  clientSecret :: string
  redirectURI :: string

text \<open>The decoded body of \<open>oauth.v2.access\<close> (the anonymous struct of \<open>HandleCallback\<close>).\<close>

record access_result =
  acc_OK :: bool
  acc_Error :: string
  acc_AccessToken :: string
  acc_AuthedUser_ID :: string
  acc_AuthedUser_AccessToken :: string
  acc_BotUserID :: string
  acc_Team_ID :: string
  acc_Team_Name :: string

text \<open>The decoded body of \<open>auth.test\<close> (the anonymous struct of \<open>ValidateToken\<close>).\<close>

record test_result =
  tst_OK :: bool
  tst_Error :: string
  tst_UserID :: string
  tst_TeamID :: string

text \<open>
  \<open>Manager.HandleCallback\<close>. The upstream is a function from the posted form to the
  outcome of the call; \<open>now\<close> is the reading of \<open>time.Now()\<close>. The result pairs the
  returned value with the storage after the call.
\<close>

definition Manager_HandleCallback ::
  "Manager \<Rightarrow> ((string \<times> string) list \<Rightarrow> access_result http_outcome) \<Rightarrow> instant \<Rightarrow>
   MemoryStorage \<Rightarrow> string \<Rightarrow> string \<Rightarrow> (error + TokenResponse) \<times> MemoryStorage" where
  "Manager_HandleCallback m postForm now storage code state =
     (let data = [(''client_id'', clientID m), (''client_secret'', clientSecret m),
                  (''code'', code), (''redirect_uri'', redirectURI m)]
      in case postForm data of
           TransportError e \<Rightarrow> (Inl (''failed to exchange code: '' @ e), storage)
         | DecodeError e \<Rightarrow> (Inl (''failed to decode response: '' @ e), storage)
         | Decoded result \<Rightarrow>
             if \<not> acc_OK result then (Inl (''slack error: '' @ acc_Error result), storage)
             else
               let token = \<lparr>AccessToken = acc_AuthedUser_AccessToken result,
                            BotToken = acc_AccessToken result,
                            UserID = acc_AuthedUser_ID result,
                            TeamID = acc_Team_ID result,
                            BotUserID = acc_BotUserID result,
                            ExpiresAt = now + 365 * 24 * Hour\<rparr>
               in case Store storage (UserID token) token of
                    (Some e, storage') \<Rightarrow> (Inl (''failed to store token: '' @ e), storage')
                  | (None, storage') \<Rightarrow> (Inr token, storage'))"

text \<open>
  \<open>Manager.ValidateToken\<close>. \<open>http.NewRequest\<close> cannot fail on the constant method and
  URL it is given, so the first error branch of the source has no counterpart.
\<close>

definition ValidateToken ::
  "(string \<Rightarrow> test_result http_outcome) \<Rightarrow> string \<Rightarrow> error + TokenInfo" where
  "ValidateToken authTest accessToken =
     (case authTest (''Bearer '' @ accessToken) of
        TransportError e \<Rightarrow> Inl e
      | DecodeError e \<Rightarrow> Inl e
      | Decoded result \<Rightarrow>
          if \<not> tst_OK result then Inl (''invalid token: '' @ tst_Error result)
          else Inr \<lparr>info_UserID = tst_UserID result, info_TeamID = tst_TeamID result\<rparr>)"

definition GetStoredToken :: "MemoryStorage \<Rightarrow> string \<Rightarrow> error + TokenResponse" where
  "GetStoredToken storage userID = Get storage userID"

section \<open>pkg/server/auth: the middleware\<close>

record UserContext =
  ctx_UserID :: string
  ctx_TeamID :: string
  ctx_AccessToken :: string
  ctx_BotToken :: string
  ctx_BotUserID :: string

text \<open>\<open>strings.TrimPrefix\<close>.\<close>

definition TrimPrefix :: "string \<Rightarrow> string \<Rightarrow> string" where
  "TrimPrefix s p = (if take (length p) s = p then drop (length p) s else s)"

text \<open>
  \<open>OAuthMiddleware\<close>. \<open>authValue\<close> is the outcome of the type assertion
  \<open>ctx.Value(authKey{}).(string)\<close>; \<open>next\<close> is the wrapped handler, which receives
  the user context the middleware injects.
\<close>

definition OAuthMiddleware ::
  "(string \<Rightarrow> test_result http_outcome) \<Rightarrow> MemoryStorage \<Rightarrow>
   (UserContext \<Rightarrow> 'req \<Rightarrow> error + 'res) \<Rightarrow> string option \<Rightarrow> 'req \<Rightarrow> error + 'res" where
  "OAuthMiddleware authTest storage next authValue req =
     (case authValue of
        None \<Rightarrow> Inl ''missing authentication token''
      | Some raw \<Rightarrow>
          let token = TrimPrefix raw ''Bearer '' in
          case ValidateToken authTest token of
            Inl e \<Rightarrow> Inl (''invalid authentication token: '' @ e)
          | Inr tokenInfo \<Rightarrow>
              let storedToken =
                    (case GetStoredToken storage (info_UserID tokenInfo) of
                       Inl e \<Rightarrow> \<lparr>AccessToken = token, BotToken = [],
                                 UserID = info_UserID tokenInfo, TeamID = info_TeamID tokenInfo,
                                 BotUserID = [], ExpiresAt = 0\<rparr>
                     | Inr t \<Rightarrow> t);
                  userCtx = \<lparr>ctx_UserID = info_UserID tokenInfo,
                             ctx_TeamID = info_TeamID tokenInfo,
                             ctx_AccessToken = token,
                             ctx_BotToken = BotToken storedToken,
                             ctx_BotUserID = BotUserID storedToken\<rparr>
              in next userCtx req)"

section \<open>pkg/server: the OAuth handler and its CSRF states\<close>

text \<open>
  \<open>OAuthHandler.states\<close> maps a state token to its expiry instant. The read lock and the
  write lock of the source are taken one after the other; the model is of one request
  running alone.
\<close>

type_synonym states = "string \<rightharpoonup> instant"

text \<open>
  The registration of a fresh state in \<open>HandleAuthorize\<close>; \<open>state\<close> is the value that
  \<open>generateState\<close> returned and \<open>now\<close> the reading of the clock.
\<close>

definition registerState :: "states \<Rightarrow> string \<Rightarrow> instant \<Rightarrow> states" where
  "registerState st state now = st(state \<mapsto> now + 10 * Minute)"

text \<open>
  The state check of \<open>OAuthHandler.HandleCallback\<close> (from the comment
  \<open>// Verify state\<close> to the end of \<open>// Clean up state\<close>): the lookup, the early
  return on an absent or expired entry, and the deletion that follows a passed check.
  \<open>time.Now().After(expiry)\<close> is \<open>expiry < now\<close>.
\<close>

definition verifyState :: "states \<Rightarrow> string \<Rightarrow> instant \<Rightarrow> bool \<times> states" where
  "verifyState st state now =
     (case st state of
        None \<Rightarrow> (False, st)
      | Some expiry \<Rightarrow> if expiry < now then (False, st) else (True, st(state := None)))"

text \<open>One tick of \<open>cleanupStates\<close>: every entry whose expiry has passed is deleted.\<close>

definition cleanupStates :: "states \<Rightarrow> instant \<Rightarrow> states" where
  "cleanupStates st now =
     (\<lambda>state. case st state of
        None \<Rightarrow> None
      | Some expiry \<Rightarrow> if expiry < now then None else Some expiry)"

text \<open>
  What \<open>HandleCallback\<close> writes: \<open>http.Error\<close> with a status and a message, or a JSON
  object with the headers set before it. The JSON object is kept as the list of its
  entries in the order the source adds them, a later entry of a key replacing the earlier.
\<close>

datatype response =
  HttpError nat string
| HttpJson "(string \<times> string) list" "(string \<times> string) list"

definition callbackHeaders :: "(string \<times> string) list" where
  "callbackHeaders =
     [(''Content-Type'', ''application/json''),
      (''X-Content-Type-Options'', ''nosniff''),
      (''X-Frame-Options'', ''DENY''),
      (''X-XSS-Protection'', ''1; mode=block''),
      (''Cache-Control'', ''no-store, no-cache, must-revalidate, private''),
      (''Pragma'', ''no-cache'')]"

definition callbackBody :: "TokenResponse \<Rightarrow> (string \<times> string) list" where
  "callbackBody token =
     [(''access_token'', AccessToken token),
      (''user_id'', UserID token),
      (''team_id'', TeamID token),
      (''message'', ''Authentication successful! Use this access_token in your MCP client.'')]
     @ (if BotToken token \<noteq> []
        then [(''bot_token'', BotToken token),
              (''bot_user_id'', BotUserID token),
              (''message'', ''Authentication successful! Both user and bot tokens received. Messages will post as bot when post_as_bot=true.'')]
        else [])"

text \<open>
  \<open>OAuthHandler.HandleCallback\<close>: \<open>code\<close> and \<open>state\<close> are the query parameters (empty
  when absent), \<open>now\<close> the clock at the state check, \<open>now'\<close> the clock inside the
  exchange. The result is the response, the states and the token storage afterwards.
\<close>

definition OAuthHandler_HandleCallback ::
  "Manager \<Rightarrow> ((string \<times> string) list \<Rightarrow> access_result http_outcome) \<Rightarrow>
   states \<Rightarrow> MemoryStorage \<Rightarrow> instant \<Rightarrow> instant \<Rightarrow> string \<Rightarrow> string \<Rightarrow>
   response \<times> states \<times> MemoryStorage" where
  "OAuthHandler_HandleCallback m postForm st storage now now' code state =
     (if code = [] \<or> state = [] then (HttpError 400 ''Missing code or state'', st, storage)
      else
        (case verifyState st state now of
           (False, st') \<Rightarrow> (HttpError 400 ''Invalid or expired state'', st', storage)
         | (True, st') \<Rightarrow>
             (case Manager_HandleCallback m postForm now' storage code state of
                (Inl e, storage') \<Rightarrow> (HttpError 500 ''Authentication failed'', st', storage')
              | (Inr token, storage') \<Rightarrow>
                  (HttpJson callbackHeaders (callbackBody token), st', storage'))))"

section \<open>Standard-library functions the sources call\<close>

subsection \<open>\<open>encoding/base64\<close>: \<open>StdEncoding\<close>\<close>

text \<open>
  The standard alphabet with \<open>=\<close> padding. \<open>EncodeToString\<close> packs three bytes into a
  24-bit value and emits its four sextets; a final group of one or two bytes is padded.
\<close>

definition encodeStd :: string where
  "encodeStd = ''ABCDEFGHIJKLMNOPQRSTUVWXYZabcdefghijklmnopqrstuvwxyz0123456789+/''"

definition padChar :: char where
  "padChar = CHR ''=''"

definition sextet :: "nat \<Rightarrow> nat \<Rightarrow> char" where
  "sextet val k = encodeStd ! (val div k mod 64)"

fun EncodeToString :: "string \<Rightarrow> string" where
  "EncodeToString [] = []"
| "EncodeToString [a] =
     (let val = of_char a * 65536
      in [sextet val 262144, sextet val 4096, padChar, padChar])"
| "EncodeToString [a, b] =
     (let val = of_char a * 65536 + of_char b * 256
      in [sextet val 262144, sextet val 4096, sextet val 64, padChar])"
| "EncodeToString (a # b # c # rest) =
     (let val = of_char a * 65536 + of_char b * 256 + of_char c
      in [sextet val 262144, sextet val 4096, sextet val 64, sextet val 1])
     @ EncodeToString rest"

text \<open>
  \<open>DecodeString\<close>: the decode map is the inverse of the alphabet; carriage returns and
  line feeds are skipped wherever they stand; the input is read four characters at a
  time; padding is accepted only in the last group, as \<open>xx==\<close> or \<open>xxx=\<close>; the unused
  low bits of a padded group are not checked (the encoding is not strict). Any other
  input is a \<open>CorruptInputError\<close>, here \<open>None\<close>.
\<close>

definition decodeMap :: "char \<Rightarrow> nat option" where
  "decodeMap = map_of (zip encodeStd [0..<64])"

definition octets :: "nat \<Rightarrow> nat \<Rightarrow> nat \<Rightarrow> nat \<Rightarrow> string" where
  "octets s0 s1 s2 s3 =
     (let val = s0 * 262144 + s1 * 4096 + s2 * 64 + s3
      in [char_of (val div 65536), char_of (val div 256), char_of val])"

fun decodeQuanta :: "string \<Rightarrow> string option" where
  "decodeQuanta [] = Some []"
| "decodeQuanta (a # b # c # d # rest) =
     (case (decodeMap a, decodeMap b) of
        (Some s0, Some s1) \<Rightarrow>
          (case decodeMap c of
             Some s2 \<Rightarrow>
               (case decodeMap d of
                  Some s3 \<Rightarrow> map_option (\<lambda>r. octets s0 s1 s2 s3 @ r) (decodeQuanta rest)
                | None \<Rightarrow>
                    if d = padChar \<and> rest = [] then Some (take 2 (octets s0 s1 s2 0)) else None)
           | None \<Rightarrow>
               if c = padChar \<and> d = padChar \<and> rest = [] then Some (take 1 (octets s0 s1 0 0))
               else None)
      | _ \<Rightarrow> None)"
| "decodeQuanta _ = None"

definition DecodeString :: "string \<Rightarrow> string option" where
  "DecodeString s = decodeQuanta (filter (\<lambda>c. c \<noteq> CHR 0x0A \<and> c \<noteq> CHR 0x0D) s)"

subsection \<open>\<open>strings\<close>\<close>

text \<open>\<open>strings.Join\<close>.\<close>

fun Join :: "string list \<Rightarrow> string \<Rightarrow> string" where
  "Join [] sep = []"
| "Join [x] sep = x"
| "Join (x # y # zs) sep = x @ sep @ Join (y # zs) sep"

text \<open>\<open>strings.Split\<close> on a one-byte separator: the empty string splits into one empty piece.\<close>

fun Split :: "string \<Rightarrow> char \<Rightarrow> string list" where
  "Split [] sep = [[]]"
| "Split (c # cs) sep =
     (if c = sep then [] # Split cs sep
      else (case Split cs sep of [] \<Rightarrow> [[c]] | w # ws \<Rightarrow> (c # w) # ws))"

text \<open>
  \<open>strings.TrimSpace\<close> removes the leading and the trailing runes that \<open>unicode.IsSpace\<close>
  accepts. \<open>spaceRunes\<close> lists their UTF-8 encodings: the six ASCII ones, U+0085, U+00A0,
  U+1680, U+2000 to U+200A, U+2028, U+2029, U+202F, U+205F and U+3000. A byte sequence
  that is not one of these encodings decodes to another rune or to \<open>RuneError\<close>, and stops
  the trimming.
\<close>

definition spaceRunes :: "string list" where
  "spaceRunes =
     [[CHR 0x09], [CHR 0x0A], [CHR 0x0B], [CHR 0x0C], [CHR 0x0D], [CHR 0x20],
      [CHR 0xC2, CHR 0x85], [CHR 0xC2, CHR 0xA0],
      [CHR 0xE1, CHR 0x9A, CHR 0x80],
      [CHR 0xE2, CHR 0x80, CHR 0x80], [CHR 0xE2, CHR 0x80, CHR 0x81],
      [CHR 0xE2, CHR 0x80, CHR 0x82], [CHR 0xE2, CHR 0x80, CHR 0x83],
      [CHR 0xE2, CHR 0x80, CHR 0x84], [CHR 0xE2, CHR 0x80, CHR 0x85],
      [CHR 0xE2, CHR 0x80, CHR 0x86], [CHR 0xE2, CHR 0x80, CHR 0x87],
      [CHR 0xE2, CHR 0x80, CHR 0x88], [CHR 0xE2, CHR 0x80, CHR 0x89],
      [CHR 0xE2, CHR 0x80, CHR 0x8A],
      [CHR 0xE2, CHR 0x80, CHR 0xA8], [CHR 0xE2, CHR 0x80, CHR 0xA9],
      [CHR 0xE2, CHR 0x80, CHR 0xAF],
      [CHR 0xE2, CHR 0x81, CHR 0x9F],
      [CHR 0xE3, CHR 0x80, CHR 0x80]]"

text \<open>Removes leading occurrences of the given non-empty byte sequences.\<close>

function trimLeftRunes :: "string list \<Rightarrow> string \<Rightarrow> string" where
  "trimLeftRunes runes s =
     (case find (\<lambda>r. r \<noteq> [] \<and> take (length r) s = r) runes of
        None \<Rightarrow> s
      | Some r \<Rightarrow> trimLeftRunes runes (drop (length r) s))"
  by pat_completeness auto
termination
proof (relation "measure (\<lambda>(runes, s). length s)")
  show "wf (measure (\<lambda>(runes, s). length s))" by simp
next
  fix runes :: "string list" and s r :: string
  assume "find (\<lambda>r. r \<noteq> [] \<and> take (length r) s = r) runes = Some r"
  then have r: "r \<noteq> []" and t: "take (length r) s = r"
    by (auto simp: find_Some_iff)
  have "length (take (length r) s) \<le> length s"
    by simp
  then have "length r \<le> length s"
    using t by simp
  moreover have "0 < length r"
    using r by simp
  ultimately have "length s - length r < length s"
    by arith
  then show "((runes, drop (length r) s), (runes, s)) \<in> measure (\<lambda>(runes, s). length s)"
    by simp
qed

definition TrimSpace :: "string \<Rightarrow> string" where
  "TrimSpace s = rev (trimLeftRunes (map rev spaceRunes) (rev (trimLeftRunes spaceRunes s)))"

subsection \<open>\<open>net/url\<close>\<close>

text \<open>
  \<open>url.QueryEscape\<close>: letters, digits and \<open>- _ . ~\<close> are kept, a space becomes \<open>+\<close>,
  every other byte becomes \<open>%\<close> and two upper-case hexadecimal digits.
\<close>

definition upperhex :: string where
  "upperhex = ''0123456789ABCDEF''"

definition inRange :: "char \<Rightarrow> char \<Rightarrow> char \<Rightarrow> bool" where
  "inRange lo hi c = (lo \<le> c \<and> c \<le> hi)"

definition shouldEscape :: "char \<Rightarrow> bool" where
  "shouldEscape c =
     (if inRange (CHR ''a'') (CHR ''z'') c \<or> inRange (CHR ''A'') (CHR ''Z'') c \<or>
         inRange (CHR ''0'') (CHR ''9'') c
      then False
      else if c = CHR ''-'' \<or> c = CHR ''_'' \<or> c = CHR ''.'' \<or> c = CHR ''~'' then False
      else True)"

fun QueryEscape :: "string \<Rightarrow> string" where
  "QueryEscape [] = []"
| "QueryEscape (c # cs) =
     (if shouldEscape c
      then (if c = CHR '' '' then ''+''
            else [CHR ''%'', upperhex ! (of_char c div 16), upperhex ! (of_char c mod 16)])
      else [c]) @ QueryEscape cs"

text \<open>
  \<open>url.QueryUnescape\<close>: \<open>+\<close> is a space, \<open>%\<close> must be followed by two hexadecimal
  digits and stands for their byte; anything else is an \<open>EscapeError\<close>, here \<open>None\<close>.
\<close>

definition unhex :: "char \<Rightarrow> nat option" where
  "unhex c =
     (if inRange (CHR ''0'') (CHR ''9'') c then Some (of_char c - 48)
      else if inRange (CHR ''a'') (CHR ''f'') c then Some (of_char c - 87)
      else if inRange (CHR ''A'') (CHR ''F'') c then Some (of_char c - 55)
      else None)"

fun QueryUnescape :: "string \<Rightarrow> string option" where
  "QueryUnescape [] = Some []"
| "QueryUnescape (c # cs) =
     (if c = CHR ''%''
      then (case cs of
              h # l # rest \<Rightarrow>
                (case (unhex h, unhex l) of
                   (Some a, Some b) \<Rightarrow> map_option ((#) (char_of (a * 16 + b))) (QueryUnescape rest)
                 | _ \<Rightarrow> None)
            | _ \<Rightarrow> None)
      else map_option ((#) (if c = CHR ''+'' then CHR '' '' else c)) (QueryUnescape cs))"

text \<open>
  \<open>url.Values.Encode\<close>: the keys are sorted, every value of a key is written as
  \<open>key=value\<close> with both sides escaped, and an \<open>&\<close> is written before a pair whenever the
  buffer is not empty. A \<open>url.Values\<close> literal is a list of keys with their values.
\<close>

definition Encode :: "(string \<times> string list) list \<Rightarrow> string" where
  "Encode v =
     foldl (\<lambda>buf pair. (if buf \<noteq> [] then buf @ ''&'' else buf) @ pair) []
       (concat (map (\<lambda>k. map (\<lambda>x. QueryEscape k @ ''='' @ QueryEscape x)
                              (case map_of v k of None \<Rightarrow> [] | Some vs \<Rightarrow> vs))
                    (sort (map fst v))))"

section \<open>pkg/oauth: the authorization URL\<close>

definition userScopes :: "string list" where
  "userScopes =
     [''channels:history'', ''channels:read'', ''groups:history'', ''groups:read'',
      ''im:history'', ''im:read'', ''im:write'', ''mpim:history'', ''mpim:read'',
      ''mpim:write'', ''users:read'', ''chat:write'', ''search:read'']"

definition botScopes :: "string list" where
  "botScopes =
     [''channels:history'', ''channels:read'', ''groups:history'', ''groups:read'',
      ''im:history'', ''im:read'', ''im:write'', ''mpim:history'', ''mpim:read'',
      ''mpim:write'', ''users:read'', ''chat:write'']"

text \<open>\<open>Manager.GetAuthURL\<close>.\<close>

definition GetAuthURL :: "Manager \<Rightarrow> string \<Rightarrow> string" where
  "GetAuthURL m state =
     (let params = [(''client_id'', [clientID m]),
                    (''scope'', [Join botScopes '','']),
                    (''user_scope'', [Join userScopes '','']),
                    (''redirect_uri'', [redirectURI m]),
                    (''state'', [state])]
      in ''https://slack.com/oauth/v2/authorize?'' @ Encode params)"

section \<open>pkg/handler: listing channels\<close>

text \<open>
  \<open>provider.Channel\<close> is declared outside the files at hand; the record has the fields
  that \<open>pkg/handler/channels.go\<close> reads.
\<close>

record provider_Channel =
  ID :: string
  Name :: string
  Topic :: string
  Purpose :: string
  MemberCount :: int
  IsPrivate :: bool
  IsIM :: bool
  IsMpIM :: bool

text \<open>The handler's own \<open>Channel\<close>, one row of the answer.\<close>

record Channel =
  ch_ID :: string
  ch_Name :: string
  ch_Topic :: string
  ch_Purpose :: string
  ch_MemberCount :: int
  ch_Cursor :: string

text \<open>
  Modelled from the spec: the constants \<open>provider.PubChanType\<close>,
  \<open>provider.PrivateChanType\<close> and \<open>provider.AllChanTypes\<close> are declared outside the
  files at hand. The spec names the four categories public, private, direct and
  multi-party; their tags are the ones \<open>filterChannelsByTypes\<close> tests for.
\<close>

definition PubChanType :: string where
  "PubChanType = ''public_channel''"

definition PrivateChanType :: string where
  "PrivateChanType = ''private_channel''"

definition AllChanTypes :: "string list" where
  "AllChanTypes = [''mpim'', ''im'', ''public_channel'', ''private_channel'']"

text \<open>The lookup \<open>ch.validTypes[t]\<close> in the map built by \<open>NewChannelsHandler\<close>.\<close>

definition validTypes :: "string \<Rightarrow> bool" where
  "validTypes t = (t \<in> set AllChanTypes)"

text \<open>
  \<open>filterChannelsByTypes\<close>. The channels are the values of the provider's map in the
  order the \<open>range\<close> loop visits them, which Go leaves unspecified; \<open>typeSet[k]\<close> is
  membership in \<open>types\<close>. Each of the four tests appends on its own.
\<close>

definition filterChannelsByTypes :: "provider_Channel list \<Rightarrow> string list \<Rightarrow> provider_Channel list" where
  "filterChannelsByTypes channels types =
     concat (map (\<lambda>ch.
        (if ''public_channel'' \<in> set types \<and> \<not> IsPrivate ch \<and> \<not> IsIM ch \<and> \<not> IsMpIM ch
         then [ch] else []) @
        (if ''private_channel'' \<in> set types \<and> IsPrivate ch \<and> \<not> IsIM ch \<and> \<not> IsMpIM ch
         then [ch] else []) @
        (if ''im'' \<in> set types \<and> IsIM ch then [ch] else []) @
        (if ''mpim'' \<in> set types \<and> IsMpIM ch then [ch] else [])) channels)"

text \<open>
  A handler ends with a Go error or with a run-time panic (a slice or an index out of
  range).
\<close>

datatype failure = Error error | Panic string

text \<open>
  The loop of \<open>paginateChannels\<close> that looks for the first channel whose ID is greater
  than the decoded cursor: \<open>i\<close> is the index of the head of the list. When no channel
  qualifies the loop ends without an assignment and \<open>startIndex\<close> keeps its initial 0.
\<close>

fun scanStart :: "nat \<Rightarrow> provider_Channel list \<Rightarrow> string \<Rightarrow> nat" where
  "scanStart i [] lastID = 0"
| "scanStart i (ch # rest) lastID = (if lastID < ID ch then i else scanStart (Suc i) rest lastID)"

text \<open>
  The start of the page in \<open>paginateChannels\<close>: 0 for an empty cursor and for a cursor
  that does not decode, the result of the loop otherwise. \<open>channels\<close> is the sorted slice.
\<close>

definition cursorStartIndex :: "provider_Channel list \<Rightarrow> string \<Rightarrow> nat" where
  "cursorStartIndex channels cursor =
     (if cursor \<noteq> []
      then (case DecodeString cursor of
              Some lastID \<Rightarrow> scanStart 0 channels lastID
            | None \<Rightarrow> 0)
      else 0)"

text \<open>
  \<open>paginateChannels\<close>. \<open>sort.Slice\<close> with the comparison on IDs is rendered by
  \<open>sort_key ID\<close>: on channels with pairwise different IDs (equal channels may repeat)
  there is one sorted arrangement, so the two agree; on different channels that share an
  ID Go's order is unspecified and the model keeps their input order. The slice
  expression \<open>channels[startIndex:endIndex]\<close> panics when \<open>endIndex < startIndex\<close>, and
  \<open>channels[endIndex-1]\<close> panics when \<open>endIndex\<close> is 0.
\<close>

definition paginateChannels ::
  "provider_Channel list \<Rightarrow> string \<Rightarrow> int \<Rightarrow> failure + (provider_Channel list \<times> string)" where
  "paginateChannels channels0 cursor limit =
     (let channels = sort_key ID channels0;
          startIndex = cursorStartIndex channels cursor;
          endIndex = int startIndex + limit;
          endIndex = (if endIndex > int (length channels) then int (length channels) else endIndex)
      in if endIndex < int startIndex then Inl (Panic ''slice bounds out of range'')
         else
           let paged = take (nat endIndex - startIndex) (drop startIndex channels)
           in if endIndex < int (length channels)
              then (if endIndex - 1 < 0 then Inl (Panic ''index out of range'')
                    else Inr (paged, EncodeToString (ID (channels ! nat (endIndex - 1)))))
              else Inr (paged, []))"

text \<open>The arguments of a tool call that the handler reads; \<open>None\<close> is an absent argument.\<close>

record CallToolRequest =
  arg_sort :: "string option"
  arg_channel_types :: "string option"
  arg_cursor :: "string option"
  arg_limit :: "int option"

definition GetString :: "string option \<Rightarrow> string \<Rightarrow> string" where
  "GetString arg dflt = (case arg of None \<Rightarrow> dflt | Some v \<Rightarrow> v)"

definition GetInt :: "int option \<Rightarrow> int \<Rightarrow> int" where
  "GetInt arg dflt = (case arg of None \<Rightarrow> dflt | Some v \<Rightarrow> v)"

definition toChannel :: "provider_Channel \<Rightarrow> Channel" where
  "toChannel channel =
     \<lparr>ch_ID = ID channel, ch_Name = Name channel, ch_Topic = Topic channel,
      ch_Purpose = Purpose channel, ch_MemberCount = MemberCount channel, ch_Cursor = []\<rparr>"

text \<open>
  Three fragments of \<open>ChannelsHandler.ChannelsHandler\<close>, named so that statements can
  refer to them. \<open>requestedTypes\<close> is the loop over \<open>strings.Split(types, ",")\<close> with the
  default that follows it; \<open>effectiveLimit\<close> is the two \<open>if\<close> statements on \<open>limit\<close>;
  \<open>buildChannelList\<close> is what follows the call of \<open>paginateChannels\<close>: the conversion
  of the page, the \<open>switch\<close> on the sort type and the cursor written into the last row.
  The display sort \<open>sort.Slice\<close> by descending member count is rendered by a sort on the
  negated count; Go does not fix the order of channels with equal counts.
\<close>

definition requestedTypes :: "string \<Rightarrow> string list" where
  "requestedTypes types =
     (let channelTypes = filter validTypes (map TrimSpace (Split types (CHR '','')))
      in if channelTypes = [] then [PubChanType, PrivateChanType] else channelTypes)"

definition effectiveLimit :: "int \<Rightarrow> int" where
  "effectiveLimit limit0 =
     (let limit = (if limit0 = 0 then 100 else limit0)
      in if limit > 999 then 999 else limit)"

definition buildChannelList :: "string \<Rightarrow> provider_Channel list \<Rightarrow> string \<Rightarrow> Channel list" where
  "buildChannelList sortType chans nextcur =
     (let channelList = map toChannel chans;
          channelList = (if sortType = ''popularity''
                         then sort_key (\<lambda>c. - ch_MemberCount c) channelList
                         else channelList)
      in if channelList \<noteq> [] \<and> nextcur \<noteq> []
         then channelList[length channelList - 1 :=
                (channelList ! (length channelList - 1))\<lparr>ch_Cursor := nextcur\<rparr>]
         else channelList)"

text \<open>
  \<open>ChannelsHandler.ChannelsHandler\<close> of a handler built by \<open>NewChannelsHandler\<close>
  (\<open>oauthEnabled\<close> is false), up to the channel list that is handed to the CSV encoder.
  \<open>isReady\<close> is what \<open>apiProvider.IsReady()\<close> returns and \<open>allChannels\<close> the content of
  the provider's channel map.
\<close>

definition ChannelsHandler ::
  "bool \<times> error \<Rightarrow> provider_Channel list \<Rightarrow> CallToolRequest \<Rightarrow> failure + Channel list" where
  "ChannelsHandler isReady allChannels request =
     (if \<not> fst isReady then Inl (Error (snd isReady))
      else
        let sortType = GetString (arg_sort request) ''popularity'';
            types = GetString (arg_channel_types request) PubChanType;
            cursor = GetString (arg_cursor request) [];
            limit = GetInt (arg_limit request) 0;
            channelTypes = requestedTypes types;
            limit = effectiveLimit limit;
            channels = filterChannelsByTypes allChannels channelTypes
        in (case paginateChannels channels cursor limit of
              Inl failed \<Rightarrow> Inl failed
            | Inr (chans, nextcur) \<Rightarrow> Inr (buildChannelList sortType chans nextcur)))"

text \<open>
  What a caller reads off an answer: the IDs of its rows, and the cursor, which the
  handler writes into the last row and nowhere else.
\<close>

definition pageIDs :: "Channel list \<Rightarrow> string list" where
  "pageIDs page = map ch_ID page"

definition pageCursor :: "Channel list \<Rightarrow> string" where
  "pageCursor page = (case page of [] \<Rightarrow> [] | _ \<Rightarrow> ch_Cursor (last page))"

section \<open>Sample data for the closed instances\<close>

definition sampleChannel :: "string \<Rightarrow> int \<Rightarrow> provider_Channel" where
  "sampleChannel i n =
     \<lparr>ID = i, Name = ''general'', Topic = [], Purpose = [], MemberCount = n,
      IsPrivate = False, IsIM = False, IsMpIM = False\<rparr>"

definition sampleChannels :: "provider_Channel list" where
  "sampleChannels = [sampleChannel ''C2'' 3, sampleChannel ''C1'' 7, sampleChannel ''C3'' 9]"

definition sampleRequest :: "string option \<Rightarrow> string option \<Rightarrow> int option \<Rightarrow> CallToolRequest" where
  "sampleRequest sortArg cursorArg limitArg =
     \<lparr>arg_sort = sortArg, arg_channel_types = None, arg_cursor = cursorArg, arg_limit = limitArg\<rparr>"

section \<open>Properties of the middleware\<close>

lemma GetStoredToken_missing:
  "storage userID = None \<Longrightarrow> GetStoredToken storage userID = Inl (''token not found for user '' @ userID)"
  by (simp add: GetStoredToken_def Get_def)

lemma GetStoredToken_present:
  "storage userID = Some t \<Longrightarrow> GetStoredToken storage userID = Inr t"
  by (simp add: GetStoredToken_def Get_def)

lemma GetStoredToken_Inl_iff:
  "(\<exists>e. GetStoredToken storage userID = Inl e) \<longleftrightarrow> storage userID = None"
  by (simp add: GetStoredToken_def Get_def split: option.splits)

text \<open>
  C3. When the token taken from the request (with its \<open>Bearer\<close> prefix removed) is
  accepted by \<open>ValidateToken\<close> and \<open>GetStoredToken\<close> fails for the validated user, the
  middleware does not fail: it calls the wrapped handler with a user context that holds
  the validated user and team, the presented token as access token, and an empty bot
  token and bot user.
\<close>

theorem middleware_without_stored_record:
  assumes "authValue = Some raw"
    and "ValidateToken authTest (TrimPrefix raw ''Bearer '') = Inr info"
    and "GetStoredToken storage (info_UserID info) = Inl e"
  shows "OAuthMiddleware authTest storage next authValue req =
         next \<lparr>ctx_UserID = info_UserID info, ctx_TeamID = info_TeamID info,
               ctx_AccessToken = TrimPrefix raw ''Bearer '',
               ctx_BotToken = [], ctx_BotUserID = []\<rparr> req"
  using assms by (simp add: OAuthMiddleware_def Let_def)

theorem middleware_without_stored_record_witness:
  "ValidateToken (\<lambda>h. Decoded \<lparr>tst_OK = True, tst_Error = [], tst_UserID = ''U1'', tst_TeamID = ''T1''\<rparr>)
     (TrimPrefix ''Bearer xoxp-1'' ''Bearer '') = Inr \<lparr>info_UserID = ''U1'', info_TeamID = ''T1''\<rparr> \<and>
   GetStoredToken NewMemoryStorage ''U1'' = Inl ''token not found for user U1'' \<and>
   OAuthMiddleware (\<lambda>h. Decoded \<lparr>tst_OK = True, tst_Error = [], tst_UserID = ''U1'', tst_TeamID = ''T1''\<rparr>)
     NewMemoryStorage (\<lambda>u r. Inr u) (Some ''Bearer xoxp-1'') () =
   (Inr \<lparr>ctx_UserID = ''U1'', ctx_TeamID = ''T1'', ctx_AccessToken = ''xoxp-1'',
         ctx_BotToken = [], ctx_BotUserID = []\<rparr> :: error + UserContext)"
proof -
  let ?authTest = "\<lambda>h::string. Decoded \<lparr>tst_OK = True, tst_Error = [], tst_UserID = ''U1'', tst_TeamID = ''T1''\<rparr>"
  have v: "ValidateToken ?authTest (TrimPrefix ''Bearer xoxp-1'' ''Bearer '')
           = Inr \<lparr>info_UserID = ''U1'', info_TeamID = ''T1''\<rparr>"
    by (simp add: ValidateToken_def)
  have g: "GetStoredToken NewMemoryStorage (info_UserID \<lparr>info_UserID = ''U1'', info_TeamID = ''T1''\<rparr>)
           = Inl ''token not found for user U1''"
    by (simp add: GetStoredToken_def Get_def NewMemoryStorage_def)
  show ?thesis
    using v g middleware_without_stored_record [OF refl v g, of "\<lambda>u r. Inr u" "()"]
    by (simp add: TrimPrefix_def)
qed

text \<open>
  C10. When the token is accepted and a record is stored for the validated user, the
  access token of the user context is the presented token; of the stored record only the
  bot token and the bot user enter the context, so its own access token is never used.
\<close>

theorem middleware_with_stored_record:
  assumes "authValue = Some raw"
    and "ValidateToken authTest (TrimPrefix raw ''Bearer '') = Inr info"
    and "GetStoredToken storage (info_UserID info) = Inr stored"
  shows "OAuthMiddleware authTest storage next authValue req =
         next \<lparr>ctx_UserID = info_UserID info, ctx_TeamID = info_TeamID info,
               ctx_AccessToken = TrimPrefix raw ''Bearer '',
               ctx_BotToken = BotToken stored, ctx_BotUserID = BotUserID stored\<rparr> req"
  using assms by (simp add: OAuthMiddleware_def Let_def)

theorem middleware_with_stored_record_witness:
  "OAuthMiddleware (\<lambda>h. Decoded \<lparr>tst_OK = True, tst_Error = [], tst_UserID = ''U1'', tst_TeamID = ''T1''\<rparr>)
     [''U1'' \<mapsto> \<lparr>AccessToken = ''xoxp-old'', BotToken = ''xoxb-9'', UserID = ''U1'',
                  TeamID = ''T0'', BotUserID = ''B9'', ExpiresAt = 7\<rparr>]
     (\<lambda>u r. Inr u) (Some ''Bearer xoxp-new'') () =
   (Inr \<lparr>ctx_UserID = ''U1'', ctx_TeamID = ''T1'', ctx_AccessToken = ''xoxp-new'',
         ctx_BotToken = ''xoxb-9'', ctx_BotUserID = ''B9''\<rparr> :: error + UserContext)"
proof -
  let ?authTest = "\<lambda>h::string. Decoded \<lparr>tst_OK = True, tst_Error = [], tst_UserID = ''U1'', tst_TeamID = ''T1''\<rparr>"
  let ?stored = "\<lparr>AccessToken = ''xoxp-old'', BotToken = ''xoxb-9'', UserID = ''U1'',
                  TeamID = ''T0'', BotUserID = ''B9'', ExpiresAt = 7\<rparr>"
  have v: "ValidateToken ?authTest (TrimPrefix ''Bearer xoxp-new'' ''Bearer '')
           = Inr \<lparr>info_UserID = ''U1'', info_TeamID = ''T1''\<rparr>"
    by (simp add: ValidateToken_def)
  have g: "GetStoredToken [''U1'' \<mapsto> ?stored] (info_UserID \<lparr>info_UserID = ''U1'', info_TeamID = ''T1''\<rparr>)
           = Inr ?stored"
    by (simp add: GetStoredToken_def Get_def)
  show ?thesis
    using middleware_with_stored_record [OF refl v g, of "\<lambda>u r. Inr u" "()"]
    by (simp add: TrimPrefix_def)
qed

section \<open>Properties of the code exchange\<close>

text \<open>
  C4. When the upstream answers the exchange with \<open>ok = false\<close>, \<open>Manager.HandleCallback\<close>
  returns the error \<open>slack error:\<close> followed by the upstream's error string, and the
  token storage is what it was before the call.
\<close>

theorem exchange_rejected_no_write:
  assumes "postForm [(''client_id'', clientID m), (''client_secret'', clientSecret m),
                     (''code'', code), (''redirect_uri'', redirectURI m)] = Decoded result"
    and "\<not> acc_OK result"
  shows "Manager_HandleCallback m postForm now storage code state =
         (Inl (''slack error: '' @ acc_Error result), storage)"
  using assms by (simp add: Manager_HandleCallback_def)

theorem exchange_rejected_no_write_witness:
  "Manager_HandleCallback \<lparr>clientID = ''cid'', clientSecret = ''sec'', redirectURI = ''https://h/cb''\<rparr>
     (\<lambda>form. Decoded \<lparr>acc_OK = False, acc_Error = ''invalid_code'', acc_AccessToken = [],
        acc_AuthedUser_ID = [], acc_AuthedUser_AccessToken = [], acc_BotUserID = [],
        acc_Team_ID = [], acc_Team_Name = []\<rparr>)
     0 NewMemoryStorage ''bad'' ''st'' =
   (Inl ''slack error: invalid_code'', NewMemoryStorage)"
proof -
  let ?r = "\<lparr>acc_OK = False, acc_Error = ''invalid_code'', acc_AccessToken = [],
        acc_AuthedUser_ID = [], acc_AuthedUser_AccessToken = [], acc_BotUserID = [],
        acc_Team_ID = [], acc_Team_Name = []\<rparr>"
  have n: "\<not> acc_OK ?r" by simp
  show ?thesis
    using n exchange_rejected_no_write [where postForm = "\<lambda>form. Decoded ?r"
        and m = "\<lparr>clientID = ''cid'', clientSecret = ''sec'', redirectURI = ''https://h/cb''\<rparr>"
        and code = "''bad''" and result = ?r and now = 0 and storage = NewMemoryStorage
        and state = "''st''"]
    by simp
qed

section \<open>Properties of the base64 encoding\<close>

lemma decodeMap_all: "\<forall>k\<in>{0..<64}. decodeMap (encodeStd ! k) = Some k"
  by code_simp

lemma encodeStd_plain:
  "\<forall>k\<in>{0..<64}. encodeStd ! k \<noteq> CHR 0x0A \<and> encodeStd ! k \<noteq> CHR 0x0D \<and> encodeStd ! k \<noteq> padChar"
  by code_simp

lemma decodeMap_pad: "decodeMap padChar = None"
  by code_simp

lemma decodeMap_sextet: "decodeMap (sextet val k) = Some (val div k mod 64)"
  using decodeMap_all by (simp add: sextet_def)

lemma sextet_plain:
  "sextet val k \<noteq> CHR 0x0A" "sextet val k \<noteq> CHR 0x0D" "sextet val k \<noteq> padChar"
  using encodeStd_plain by (simp_all add: sextet_def)

lemma of_char_bound: "of_char (c::char) < (256::nat)"
  using of_char_mod_256 [where ?'a = nat, of c] by (metis mod_less_divisor zero_less_numeral)

lemma radix64:
  fixes v :: nat
  shows "v div 262144 * 262144 + v div 4096 mod 64 * 4096 + v div 64 mod 64 * 64 + v mod 64 = v"
proof -
  have a: "v = 64 * (v div 64) + v mod 64" by simp
  have b: "v div 64 = 64 * (v div 64 div 64) + v div 64 mod 64" by simp
  have c: "v div 64 div 64 = 64 * (v div 64 div 64 div 64) + v div 64 div 64 mod 64" by simp
  have d: "v div 4096 = v div 64 div 64" by (simp add: div_mult2_eq)
  have e: "v div 262144 = v div 64 div 64 div 64" by (simp add: div_mult2_eq)
  show ?thesis unfolding d e using a b c by linarith
qed

lemma radix256:
  fixes a b c :: nat
  assumes "b < 256" "c < 256"
  shows "(a * 65536 + b * 256 + c) div 65536 = a"
    and "(a * 65536 + b * 256 + c) div 256 mod 256 = b"
    and "(a * 65536 + b * 256 + c) mod 256 = c"
proof -
  have dm: "\<And>q r::nat. r < 256 \<Longrightarrow> (q * 256 + r) div 256 = q \<and> (q * 256 + r) mod 256 = r"
    by simp
  have 0: "a * 65536 + b * 256 + c = (a * 256 + b) * 256 + c" by simp
  have 1: "(a * 65536 + b * 256 + c) div 256 = a * 256 + b"
    using dm [of c "a * 256 + b"] assms 0 by presburger
  show "(a * 65536 + b * 256 + c) div 256 mod 256 = b"
    using dm [of b a] assms 1 by presburger
  show "(a * 65536 + b * 256 + c) mod 256 = c"
    using dm [of c "a * 256 + b"] assms 0 by presburger
  have "(a * 65536 + b * 256 + c) div 65536 = (a * 65536 + b * 256 + c) div 256 div 256"
    by (simp add: div_mult2_eq)
  then show "(a * 65536 + b * 256 + c) div 65536 = a"
    using dm [of b a] assms 1 by presburger
qed

lemma octets_of_val:
  fixes a b c :: nat
  assumes v_def: "v = a * 65536 + b * 256 + c" and "a < 256" "b < 256" "c < 256"
  shows "octets (v div 262144 mod 64) (v div 4096 mod 64) (v div 64 mod 64) (v mod 64)
         = [char_of a, char_of b, char_of c]"
proof -
  have "v < 64 * 262144" using assms by simp
  then have "v div 262144 < 64" by (simp add: less_mult_imp_div_less)
  then have s0: "v div 262144 mod 64 = v div 262144" by simp
  have o: "octets (v div 262144 mod 64) (v div 4096 mod 64) (v div 64 mod 64) (v mod 64)
      = [char_of (v div 65536), char_of (v div 256), char_of v]"
    unfolding octets_def Let_def s0 radix64 [of v] by (rule refl)
  have e: "\<And>n m::nat. n mod 256 = m mod 256 \<Longrightarrow> (char_of n :: char) = char_of m"
    by (simp add: char_of_eq_iff take_bit_eq_mod)
  have 1: "v div 65536 = a" and 2: "v div 256 mod 256 = b" and 3: "v mod 256 = c"
    unfolding v_def using radix256 [OF assms(3,4), of a] by blast+
  have "(char_of (v div 256) :: char) = char_of b" using e [of "v div 256" b] 2 assms by simp
  moreover have "(char_of v :: char) = char_of c" using e [of v c] 3 assms by simp
  ultimately show ?thesis using o 1 by simp
qed

lemma low_sextets_zero:
  fixes a b :: nat
  shows "(a * 65536 + b * 256) mod 64 = 0"
    and "(a * 65536) div 64 mod 64 = 0"
proof -
  have 1: "a * 65536 + b * 256 = (a * 1024 + b * 4) * 64" by simp
  show "(a * 65536 + b * 256) mod 64 = 0" unfolding 1 by (rule mod_mult_self2_is_0)
  have 2: "a * 65536 = a * 1024 * 64" by simp
  have 3: "a * 1024 * 64 div 64 = a * 1024" by (rule nonzero_mult_div_cancel_right) simp
  have 4: "a * 1024 = a * 16 * 64" by simp
  have "a * 1024 mod 64 = 0" unfolding 4 by (rule mod_mult_self2_is_0)
  then show "(a * 65536) div 64 mod 64 = 0" unfolding 2 3 .
qed

lemma decodeQuanta_full:
  "decodeQuanta ([sextet v 262144, sextet v 4096, sextet v 64, sextet v 1] @ rest) =
   map_option (\<lambda>r. octets (v div 262144 mod 64) (v div 4096 mod 64) (v div 64 mod 64) (v mod 64) @ r)
     (decodeQuanta rest)"
  by (simp add: decodeMap_sextet)

lemma decodeQuanta_pad1:
  "decodeQuanta [sextet v 262144, sextet v 4096, sextet v 64, padChar] =
   Some (take 2 (octets (v div 262144 mod 64) (v div 4096 mod 64) (v div 64 mod 64) 0))"
  by (simp add: decodeMap_sextet decodeMap_pad)

lemma decodeQuanta_pad2:
  "decodeQuanta [sextet v 262144, sextet v 4096, padChar, padChar] =
   Some (take 1 (octets (v div 262144 mod 64) (v div 4096 mod 64) 0 0))"
  by (simp add: decodeMap_sextet decodeMap_pad)

lemma decodeQuanta_EncodeToString: "decodeQuanta (EncodeToString bs) = Some bs"
proof (induction bs rule: EncodeToString.induct)
  case 1
  show ?case by simp
next
  case (2 a)
  define v :: nat where "v = of_char a * 65536"
  have enc: "EncodeToString [a] = [sextet v 262144, sextet v 4096, padChar, padChar]"
    by (simp add: v_def Let_def)
  have z: "v div 64 mod 64 = 0" "v mod 64 = 0"
    using low_sextets_zero(2) [of "of_char a"] low_sextets_zero(1) [of "of_char a" 0]
    by (simp_all add: v_def)
  have "v = of_char a * 65536 + 0 * 256 + 0" by (simp add: v_def)
  then have "octets (v div 262144 mod 64) (v div 4096 mod 64) (v div 64 mod 64) (v mod 64)
        = [char_of (of_char a :: nat), char_of (0::nat), char_of (0::nat)]"
    by (rule octets_of_val) (simp_all add: of_char_bound)
  then show ?case unfolding enc decodeQuanta_pad2 z by simp
next
  case (3 a b)
  define v :: nat where "v = of_char a * 65536 + of_char b * 256"
  have enc: "EncodeToString [a, b] = [sextet v 262144, sextet v 4096, sextet v 64, padChar]"
    by (simp add: v_def Let_def)
  have z: "v mod 64 = 0"
    using low_sextets_zero(1) [of "of_char a" "of_char b"] by (simp add: v_def)
  have "v = of_char a * 65536 + of_char b * 256 + 0" by (simp add: v_def)
  then have "octets (v div 262144 mod 64) (v div 4096 mod 64) (v div 64 mod 64) (v mod 64)
        = [char_of (of_char a :: nat), char_of (of_char b :: nat), char_of (0::nat)]"
    by (rule octets_of_val) (simp_all add: of_char_bound)
  then show ?case unfolding enc decodeQuanta_pad1 z by simp
next
  case (4 a b c rest)
  define v :: nat where "v = of_char a * 65536 + of_char b * 256 + of_char c"
  have enc: "EncodeToString (a # b # c # rest) =
      [sextet v 262144, sextet v 4096, sextet v 64, sextet v 1] @ EncodeToString rest"
    by (simp add: v_def Let_def)
  have "octets (v div 262144 mod 64) (v div 4096 mod 64) (v div 64 mod 64) (v mod 64)
        = [char_of (of_char a :: nat), char_of (of_char b :: nat), char_of (of_char c :: nat)]"
    by (rule octets_of_val [OF v_def]) (simp_all add: of_char_bound)
  then show ?case unfolding enc decodeQuanta_full using 4 by simp
qed

lemma EncodeToString_plain:
  "filter (\<lambda>c. c \<noteq> CHR 0x0A \<and> c \<noteq> CHR 0x0D) (EncodeToString bs) = EncodeToString bs"
  by (induction bs rule: EncodeToString.induct) (simp_all add: sextet_plain Let_def padChar_def)

text \<open>Decoding undoes encoding: a cursor the handler issued decodes to the ID it was made from.\<close>

lemma DecodeString_EncodeToString: "DecodeString (EncodeToString bs) = Some bs"
  by (simp add: DecodeString_def EncodeToString_plain decodeQuanta_EncodeToString)

lemma EncodeToString_Nil_iff: "EncodeToString bs = [] \<longleftrightarrow> bs = []"
  by (induction bs rule: EncodeToString.induct) (simp_all add: Let_def)

section \<open>Properties of the pagination\<close>

lemma scanStart_none:
  "\<forall>ch\<in>set chs. \<not> lastID < ID ch \<Longrightarrow> scanStart i chs lastID = 0"
  by (induction chs arbitrary: i) auto

lemma scanStart_first:
  "\<forall>ch\<in>set xs. \<not> lastID < ID ch \<Longrightarrow> lastID < ID c \<Longrightarrow>
   scanStart i (xs @ c # ys) lastID = i + length xs"
  by (induction xs arbitrary: i) auto

lemma scanStart_range:
  "scanStart i chs lastID = 0 \<or> (i \<le> scanStart i chs lastID \<and> scanStart i chs lastID < i + length chs)"
proof (induction chs arbitrary: i)
  case Nil
  show ?case by simp
next
  case (Cons c chs)
  show ?case using Cons [of "Suc i"] by auto
qed

lemma cursorStartIndex_le: "cursorStartIndex chs cursor \<le> length chs"
  using scanStart_range [of 0 chs]
  by (auto simp: cursorStartIndex_def split: option.splits) (metis less_imp_le_nat zero_le)

lemma cursorStartIndex_less: "chs \<noteq> [] \<Longrightarrow> cursorStartIndex chs cursor < length chs"
  using scanStart_range [of 0 chs]
  by (auto simp: cursorStartIndex_def split: option.splits) (metis length_greater_0_conv)

lemma cursorStartIndex_undecodable:
  "DecodeString cursor = None \<Longrightarrow> cursorStartIndex chs cursor = 0"
  by (simp add: cursorStartIndex_def)

lemma cursorStartIndex_empty: "cursorStartIndex chs [] = 0"
  by (simp add: cursorStartIndex_def)

lemma cursorStartIndex_past_end:
  "DecodeString cursor = Some lastID \<Longrightarrow> \<forall>ch\<in>set chs. ID ch \<le> lastID \<Longrightarrow>
   cursorStartIndex chs cursor = 0"
  by (simp add: cursorStartIndex_def scanStart_none not_less)

lemma paginateChannels_start:
  "cursorStartIndex (sort_key ID chs) cursor = cursorStartIndex (sort_key ID chs) cursor' \<Longrightarrow>
   paginateChannels chs cursor limit = paginateChannels chs cursor' limit"
  by (simp add: paginateChannels_def)

lemma paginateChannels_pos:
  assumes "0 < limit"
  shows "paginateChannels chs cursor limit =
         (let channels = sort_key ID chs; s = cursorStartIndex channels cursor
          in Inr (take (nat limit) (drop s channels),
                  if int s + limit < int (length channels)
                  then EncodeToString (ID (channels ! (s + nat limit - 1))) else []))"
proof -
  define channels where "channels = sort_key ID chs"
  define s where "s = cursorStartIndex channels cursor"
  have sle: "s \<le> length channels"
    unfolding s_def by (rule cursorStartIndex_le)
  show ?thesis
  proof (cases "int s + limit < int (length channels)")
    case True
    then have "nat (int s + limit) - s = nat limit" "nat (int s + limit - 1) = s + nat limit - 1"
      using assms by auto
    then show ?thesis
      using True assms sle
      by (simp add: paginateChannels_def Let_def channels_def [symmetric] s_def [symmetric])
  next
    case False
    have "take (length channels - s) (drop s channels) = take (nat limit) (drop s channels)"
      using False by simp
    then show ?thesis
      using False assms sle
      by (auto simp add: paginateChannels_def Let_def channels_def [symmetric] s_def [symmetric])
  qed
qed

lemma paginateChannels_neg:
  "limit < 0 \<Longrightarrow> paginateChannels chs cursor limit = Inl (Panic ''slice bounds out of range'')"
  using cursorStartIndex_le [of "sort_key ID chs" cursor]
  by (simp add: paginateChannels_def Let_def)

lemma effectiveLimit_cases:
  "effectiveLimit l = (if l = 0 then 100 else if l > 999 then 999 else l)"
  by (simp add: effectiveLimit_def Let_def)

lemma effectiveLimit_pos: "0 \<le> l \<Longrightarrow> 0 < effectiveLimit l"
  by (simp add: effectiveLimit_cases)

lemma effectiveLimit_le: "effectiveLimit l \<le> 999"
  by (simp add: effectiveLimit_cases)

lemma effectiveLimit_neg: "l < 0 \<Longrightarrow> effectiveLimit l = l"
  by (simp add: effectiveLimit_cases)

lemma ChannelsHandler_ready:
  "fst r \<Longrightarrow>
   ChannelsHandler r all request =
     (case paginateChannels
             (filterChannelsByTypes all (requestedTypes (GetString (arg_channel_types request) PubChanType)))
             (GetString (arg_cursor request) []) (effectiveLimit (GetInt (arg_limit request) 0)) of
        Inl failed \<Rightarrow> Inl failed
      | Inr (chans, nextcur) \<Rightarrow>
          Inr (buildChannelList (GetString (arg_sort request) ''popularity'') chans nextcur))"
  by (simp add: ChannelsHandler_def Let_def)

lemma ChannelsHandler_not_ready:
  "\<not> fst r \<Longrightarrow> ChannelsHandler r all request = Inl (Error (snd r))"
  by (simp add: ChannelsHandler_def)

lemma pageIDs_set_cursor:
  "k < length xs \<Longrightarrow> pageIDs (xs[k := (xs ! k)\<lparr>ch_Cursor := c\<rparr>]) = pageIDs xs"
  by (simp add: pageIDs_def map_update list_update_same_conv)

lemma sort_key_Nil_iff [simp]: "sort_key f xs = [] \<longleftrightarrow> xs = []"
proof -
  have "length (sort_key f xs) = length xs" by simp
  then show ?thesis by (metis length_0_conv)
qed

lemma length_buildChannelList [simp]:
  "length (buildChannelList sortType chans nextcur) = length chans"
  by (simp add: buildChannelList_def Let_def)

lemma buildChannelList_Nil_iff [simp]:
  "buildChannelList sortType chans nextcur = [] \<longleftrightarrow> chans = []"
  using length_buildChannelList [of sortType chans nextcur] by (metis length_0_conv)

lemma mset_pageIDs_buildChannelList:
  "mset (pageIDs (buildChannelList sortType chans nextcur)) = mset (map ID chans)"
proof -
  define xs where
    "xs = (if sortType = ''popularity'' then sort_key (\<lambda>c. - ch_MemberCount c) (map toChannel chans)
           else map toChannel chans)"
  have "mset xs = mset (map toChannel chans)"
    by (simp add: xs_def)
  then have "mset (map ch_ID xs) = mset (map ch_ID (map toChannel chans))"
    by (metis mset_map)
  then have ids: "mset (pageIDs xs) = mset (map ID chans)"
    by (simp add: pageIDs_def toChannel_def comp_def)
  have "pageIDs (buildChannelList sortType chans nextcur) = pageIDs xs"
  proof (cases "xs \<noteq> [] \<and> nextcur \<noteq> []")
    case True
    then have "length xs - 1 < length xs" by simp
    then show ?thesis
      using True pageIDs_set_cursor [of "length xs - 1" xs nextcur]
      by (simp add: buildChannelList_def Let_def xs_def [symmetric])
  next
    case False
    then show ?thesis
      by (auto simp add: buildChannelList_def Let_def xs_def [symmetric])
  qed
  then show ?thesis using ids by simp
qed

lemma pageCursor_nonempty: "page \<noteq> [] \<Longrightarrow> pageCursor page = ch_Cursor (last page)"
  by (cases page) (simp_all add: pageCursor_def)

lemma pageCursor_buildChannelList:
  "pageCursor (buildChannelList sortType chans nextcur) = (if chans = [] then [] else nextcur)"
proof (cases "chans = []")
  case True
  then show ?thesis by (simp add: buildChannelList_def pageCursor_def)
next
  case False
  define xs where
    "xs = (if sortType = ''popularity'' then sort_key (\<lambda>c. - ch_MemberCount c) (map toChannel chans)
           else map toChannel chans)"
  have ne: "xs \<noteq> []" using False by (simp add: xs_def)
  have "set xs = toChannel ` set chans" by (simp add: xs_def)
  then have "last xs \<in> toChannel ` set chans"
    using last_in_set [OF ne] by simp
  then obtain c where "last xs = toChannel c"
    by blast
  then have blank: "ch_Cursor (last xs) = []"
    by (simp add: toChannel_def)
  show ?thesis
  proof (cases "nextcur = []")
    case True
    then have "buildChannelList sortType chans nextcur = xs"
      by (simp add: buildChannelList_def Let_def xs_def [symmetric])
    then show ?thesis using ne blank True False
      by (simp add: pageCursor_nonempty)
  next
    case nonempty: False
    have b: "buildChannelList sortType chans nextcur =
          xs[length xs - 1 := (xs ! (length xs - 1))\<lparr>ch_Cursor := nextcur\<rparr>]"
      using ne nonempty by (simp add: buildChannelList_def Let_def xs_def [symmetric])
    have "last (xs[length xs - 1 := (xs ! (length xs - 1))\<lparr>ch_Cursor := nextcur\<rparr>])
          = (xs ! (length xs - 1))\<lparr>ch_Cursor := nextcur\<rparr>"
      using ne by (simp add: last_list_update)
    then show ?thesis using ne False unfolding b
      by (simp add: pageCursor_nonempty)
  qed
qed

lemma effectiveLimit_nonzero: "effectiveLimit l \<noteq> 0"
  by (simp add: effectiveLimit_cases)

lemma ChannelsHandler_page_length:
  assumes "ChannelsHandler r all request = Inr page"
  shows "length page \<le> 999"
proof -
  define L where "L = effectiveLimit (GetInt (arg_limit request) 0)"
  have ready: "fst r"
    using assms by (auto simp: ChannelsHandler_def split: if_splits)
  have "\<not> L < 0"
    using assms ready paginateChannels_neg [of L]
    by (auto simp: ChannelsHandler_ready L_def [symmetric])
  then have pos: "0 < L"
    using effectiveLimit_nonzero [of "GetInt (arg_limit request) 0"] by (simp add: L_def)
  have "L \<le> 999" unfolding L_def by (rule effectiveLimit_le)
  then have "nat L \<le> 999" by simp
  then show ?thesis
    using assms ready
    by (auto simp: ChannelsHandler_ready L_def [symmetric] paginateChannels_pos [OF pos] Let_def)
qed

lemma ChannelsHandler_returns:
  assumes "fst r" and "0 \<le> GetInt (arg_limit request) 0"
  shows "\<exists>page. ChannelsHandler r all request = Inr page"
  using assms paginateChannels_pos [OF effectiveLimit_pos [OF assms(2)]]
  by (simp add: ChannelsHandler_ready Let_def)

lemma ChannelsHandler_same_start:
  assumes "cursorStartIndex
             (sort_key ID (filterChannelsByTypes all
                (requestedTypes (GetString (arg_channel_types request) PubChanType))))
             (GetString c []) =
           cursorStartIndex
             (sort_key ID (filterChannelsByTypes all
                (requestedTypes (GetString (arg_channel_types request) PubChanType))))
             (GetString c' [])"
  shows "ChannelsHandler r all (request\<lparr>arg_cursor := c\<rparr>) =
         ChannelsHandler r all (request\<lparr>arg_cursor := c'\<rparr>)"
  using paginateChannels_start [OF assms]
  by (simp add: ChannelsHandler_def Let_def)


section \<open>Properties of the listing\<close>

text \<open>
  C5. A limit of zero, or none, is replaced by 100 and a limit above 999 by 999 before
  the page is cut: the handler answers such a request as it answers the request with
  the replaced limit. An answer never has more than 999 rows, and a ready handler
  answers every request whose limit is not negative.
\<close>

theorem limit_default_and_cap:
  "effectiveLimit 0 = 100 \<and>
   (999 < l \<longrightarrow> effectiveLimit l = 999) \<and>
   (arg_limit request = None \<or> arg_limit request = Some 0 \<longrightarrow>
      ChannelsHandler r all request = ChannelsHandler r all (request\<lparr>arg_limit := Some 100\<rparr>)) \<and>
   (arg_limit request = Some l \<and> 999 < l \<longrightarrow>
      ChannelsHandler r all request = ChannelsHandler r all (request\<lparr>arg_limit := Some 999\<rparr>)) \<and>
   (\<forall>page. ChannelsHandler r all request = Inr page \<longrightarrow> length page \<le> 999) \<and>
   (fst r \<and> 0 \<le> GetInt (arg_limit request) 0 \<longrightarrow> (\<exists>page. ChannelsHandler r all request = Inr page))"
proof (intro conjI impI allI)
  show "effectiveLimit 0 = 100" by (simp add: effectiveLimit_cases)
  show "effectiveLimit l = 999" if "999 < l" using that by (simp add: effectiveLimit_cases)
  show "ChannelsHandler r all request = ChannelsHandler r all (request\<lparr>arg_limit := Some 100\<rparr>)"
    if "arg_limit request = None \<or> arg_limit request = Some 0"
    using that by (auto simp: ChannelsHandler_def GetInt_def effectiveLimit_cases Let_def)
  show "ChannelsHandler r all request = ChannelsHandler r all (request\<lparr>arg_limit := Some 999\<rparr>)"
    if "arg_limit request = Some l \<and> 999 < l"
    using that by (auto simp: ChannelsHandler_def GetInt_def effectiveLimit_cases Let_def)
  show "length page \<le> 999" if "ChannelsHandler r all request = Inr page" for page
    using that by (rule ChannelsHandler_page_length)
  show "\<exists>page. ChannelsHandler r all request = Inr page"
    if "fst r \<and> 0 \<le> GetInt (arg_limit request) 0"
    using that ChannelsHandler_returns by blast
qed

theorem limit_default_and_cap_witness:
  "ChannelsHandler (True, []) sampleChannels (sampleRequest None None None) =
     ChannelsHandler (True, []) sampleChannels ((sampleRequest None None None)\<lparr>arg_limit := Some 100\<rparr>) \<and>
   effectiveLimit 5000 = 999 \<and>
   ChannelsHandler (True, []) sampleChannels (sampleRequest None None (Some 5000)) =
     ChannelsHandler (True, []) sampleChannels ((sampleRequest None None (Some 5000))\<lparr>arg_limit := Some 999\<rparr>) \<and>
   (\<exists>page. ChannelsHandler (True, []) sampleChannels (sampleRequest None None (Some 5000)) = Inr page \<and>
      length page \<le> 999)"
proof -
  have a: "arg_limit (sampleRequest None None None) = None"
    and b: "arg_limit (sampleRequest None None (Some 5000)) = Some 5000"
    and c: "0 \<le> GetInt (arg_limit (sampleRequest None None (Some 5000))) 0"
    by (simp_all add: sampleRequest_def GetInt_def)
  note t1 = limit_default_and_cap [of 5000 "sampleRequest None None None" "(True, [])" sampleChannels]
  note t2 = limit_default_and_cap [of 5000 "sampleRequest None None (Some 5000)" "(True, [])" sampleChannels]
  from t2 c obtain page where
    p: "ChannelsHandler (True, []) sampleChannels (sampleRequest None None (Some 5000)) = Inr page"
    by auto
  with t2 have "length page \<le> 999" by blast
  with p t1 t2 a b show ?thesis by simp
qed


text \<open>
  C6. A cursor that does not decode is treated as no cursor: for every collection,
  requested types and limit the handler answers exactly as it does for the empty cursor
  and for the absent one, so whatever the answer is, the cursor did not cause a failure.
\<close>

theorem undecodable_cursor_restarts:
  assumes "DecodeString cursor = None"
  shows "ChannelsHandler r all (request\<lparr>arg_cursor := Some cursor\<rparr>) =
           ChannelsHandler r all (request\<lparr>arg_cursor := Some []\<rparr>) \<and>
         ChannelsHandler r all (request\<lparr>arg_cursor := Some cursor\<rparr>) =
           ChannelsHandler r all (request\<lparr>arg_cursor := None\<rparr>)"
proof
  show "ChannelsHandler r all (request\<lparr>arg_cursor := Some cursor\<rparr>) =
        ChannelsHandler r all (request\<lparr>arg_cursor := Some []\<rparr>)"
    by (rule ChannelsHandler_same_start)
       (simp add: GetString_def cursorStartIndex_undecodable [OF assms] cursorStartIndex_empty)
  show "ChannelsHandler r all (request\<lparr>arg_cursor := Some cursor\<rparr>) =
        ChannelsHandler r all (request\<lparr>arg_cursor := None\<rparr>)"
    by (rule ChannelsHandler_same_start)
       (simp add: GetString_def cursorStartIndex_undecodable [OF assms] cursorStartIndex_empty)
qed

end
